theory Spec2Isabelle
  imports Main
begin

section \<open>Data model\<close>

text \<open>
  The file \<^verbatim>\<open>.invenio\<close> is read and written through \<^verbatim>\<open>ConfigParser\<close>; its
  content is modelled in parsed form, a map from section names to maps from keys to
  values (the \<^verbatim>\<open>DEFAULT\<close> section and value interpolation, which the tool never
  writes, are left out). The file system holds \<open>None\<close> when the file is absent.
\<close>

type_synonym ini_section = "string \<rightharpoonup> string"
type_synonym ini_file = "string \<rightharpoonup> ini_section"

text \<open>Python values stored in attributes and passed to external calls.\<close>

datatype pyval = PNone | PStr string | PConfig ini_file

text \<open>
  An \<^verbatim>\<open>InvenioCli\<close> instance is its attribute dictionary: reading an attribute
  that was never assigned raises \<^verbatim>\<open>AttributeError\<close>.
\<close>

type_synonym pyobj = "string \<rightharpoonup> pyval"

text \<open>
  The external calls of the tool, with the arguments the code passes:
  \<^verbatim>\<open>cookiecutter(**cookiecutter_repo(flavour))\<close>, \<^verbatim>\<open>subprocess.call(argv, cwd=...)\<close>,
  \<^verbatim>\<open>docker.from_env().images.build(path=..., dockerfile=..., tag=...)\<close> and the
  operations of \<^verbatim>\<open>DockerCompose\<close> (imported from \<^verbatim>\<open>.utils\<close>, opaque here).
\<close>

datatype call =
    Cookiecutter pyval
  | Subprocess_call "string list" pyval
  | Docker_build pyval string string
  | Create_containers bool pyval
  | Start_containers bool pyval bool
  | Stop_containers pyval
  | Destroy_containers bool pyval

datatype level = DEBUG | ERROR

datatype exn =
    AttributeError string
  | TypeError
  | KeyboardInterrupt
  | ExternalError call

text \<open>A command ends normally, by \<^verbatim>\<open>exit(n)\<close>, or by an uncaught exception.\<close>

datatype abort = SystemExit int | Uncaught exn

text \<open>
  What a run can change or emit: the config file, the external calls issued (in order),
  the lines printed, and the log records.
\<close>

record state =
  fs :: "ini_file option"
  calls :: "call list"
  stdout :: "string list"
  logged :: "(level \<times> string) list"

text \<open>
  The environment answers an external call with a return code, or \<open>None\<close> when the
  call raises; the scaffolding call returns the path of the created project.
\<close>

record world =
  provision :: "pyval \<Rightarrow> string option"
  run :: "call \<Rightarrow> int option"

type_synonym 'a prog = "state \<Rightarrow> (abort + 'a) \<times> state"

definition ret :: "'a \<Rightarrow> 'a prog" where
  "ret a s = (Inr a, s)"

definition seq :: "'a prog \<Rightarrow> ('a \<Rightarrow> 'b prog) \<Rightarrow> 'b prog" where
  "seq m f s = (case m s of (Inl e, s') \<Rightarrow> (Inl e, s') | (Inr a, s') \<Rightarrow> f a s')"

definition raise :: "exn \<Rightarrow> 'a prog" where
  "raise e s = (Inl (Uncaught e), s)"

definition exit :: "int \<Rightarrow> 'a prog" where
  "exit n s = (Inl (SystemExit n), s)"

definition print :: "string \<Rightarrow> unit prog" where
  "print x s = (Inr (), s\<lparr>stdout := stdout s @ [x]\<rparr>)"

definition logging :: "level \<Rightarrow> string \<Rightarrow> unit prog" where
  "logging l x s = (Inr (), s\<lparr>logged := logged s @ [(l, x)]\<rparr>)"

definition getattr :: "pyobj \<Rightarrow> string \<Rightarrow> pyval prog" where
  "getattr obj n = (case obj n of None \<Rightarrow> raise (AttributeError n) | Some v \<Rightarrow> ret v)"

text \<open>An external call is recorded when it is issued, whether it returns or raises.\<close>

definition external :: "world \<Rightarrow> call \<Rightarrow> int prog" where
  "external w c s =
     (case run w c of
        None \<Rightarrow> (Inl (Uncaught (ExternalError c)), s\<lparr>calls := calls s @ [c]\<rparr>)
      | Some rc \<Rightarrow> (Inr rc, s\<lparr>calls := calls s @ [c]\<rparr>))"

definition cookiecutter :: "world \<Rightarrow> pyval \<Rightarrow> string prog" where
  "cookiecutter w fl s =
     (case provision w fl of
        None \<Rightarrow> (Inl (Uncaught (ExternalError (Cookiecutter fl))),
                 s\<lparr>calls := calls s @ [Cookiecutter fl]\<rparr>)
      | Some d \<Rightarrow> (Inr d, s\<lparr>calls := calls s @ [Cookiecutter fl]\<rparr>))"

text \<open>
  \<^verbatim>\<open>'{x}'.format(x=v)\<close>: a string is inserted as it is, \<^verbatim>\<open>None\<close> as
  \<^verbatim>\<open>None\<close>. The code never formats the parser object; its clause only makes the
  function total.
\<close>

fun py_format :: "pyval \<Rightarrow> string" where
  "py_format PNone = ''None''"
| "py_format (PStr x) = x"
| "py_format (PConfig c) = ''<configparser.ConfigParser object>''"

subsection \<open>The config file\<close>

definition CONFIG_FILENAME :: string where
  "CONFIG_FILENAME = ''.invenio''"

definition isfile :: "bool prog" where
  "isfile s = (Inr (fs s \<noteq> None), s)"

text \<open>
  \<^verbatim>\<open>config.read(CONFIG_FILENAME)\<close> merges the file's sections into the parser and
  ignores a missing file.
\<close>

definition merge_file :: "ini_file \<Rightarrow> ini_file option \<Rightarrow> ini_file" where
  "merge_file cfg f =
     (case f of
        None \<Rightarrow> cfg
      | Some secs \<Rightarrow>
          (\<lambda>n. case secs n of
                 None \<Rightarrow> cfg n
               | Some kv \<Rightarrow> Some ((case cfg n of None \<Rightarrow> Map.empty | Some old \<Rightarrow> old) ++ kv)))"

definition config_read :: "ini_file \<Rightarrow> ini_file prog" where
  "config_read cfg s = (Inr (merge_file cfg (fs s)), s)"

text \<open>
  \<^verbatim>\<open>config[sec][key]\<close> on the parsed content: \<open>None\<close> stands for the
  \<^verbatim>\<open>KeyError\<close>. The parser's fallback to \<^verbatim>\<open>DEFAULT\<close> and its other
  exceptions (interpolation, malformed files) have no counterpart here, so the results
  below fix the outcome of each lookup in their hypotheses.
\<close>

definition config_get :: "ini_file \<Rightarrow> string \<Rightarrow> string \<Rightarrow> string option" where
  "config_get cfg sec k = (case cfg sec of None \<Rightarrow> None | Some kv \<Rightarrow> kv k)"

text \<open>\<^verbatim>\<open>open(CONFIG_FILENAME, 'w')\<close> creates the file or truncates it.\<close>

definition open_w :: "unit prog" where
  "open_w s = (Inr (), s\<lparr>fs := Some Map.empty\<rparr>)"

definition config_write :: "ini_file \<Rightarrow> unit prog" where
  "config_write cfg s = (Inr (), s\<lparr>fs := Some cfg\<rparr>)"

section \<open>\<^verbatim>\<open>InvenioCli.__init__\<close>\<close>

text \<open>\<^verbatim>\<open>if flavour\<close>: \<^verbatim>\<open>None\<close> and the empty string are false.\<close>

fun truthy :: "string option \<Rightarrow> bool" where
  "truthy None = False"
| "truthy (Some x) = (x \<noteq> [])"

definition InvenioCli_init :: "string option \<Rightarrow> pyobj prog" where
  "InvenioCli_init flavour =
     (let self = Map.empty(''cwd'' \<mapsto> PNone) in
      seq (config_read Map.empty) (\<lambda>config.
      let self = self(''config'' \<mapsto> PConfig config) in
      seq isfile (\<lambda>there.
      if there then
        (case config_get config ''cli'' ''flavour'' of
           None \<Rightarrow> seq (logging ERROR ''Flavour not configured'') (\<lambda>_. exit 1)
         | Some config_flavour \<Rightarrow>
             if truthy flavour \<and> flavour \<noteq> Some config_flavour then
               seq (logging ERROR ''Config flavour in .invenio differs form the specified'')
                 (\<lambda>_. exit 1)
             else
               (let self = self(''flavour'' \<mapsto> PStr config_flavour) in
                case config_get config ''cli'' ''cwd'' of
                  None \<Rightarrow> seq (logging DEBUG ''Working directory not configured'')
                            (\<lambda>_. ret self)
                | Some d \<Rightarrow> ret (self(''cwd'' \<mapsto> PStr d))))
      else
        (case flavour of
           Some fl \<Rightarrow>
             if fl \<noteq> [] then ret (self(''flavour'' \<mapsto> PStr fl))
             else seq (logging ERROR ''No flavour specified.'') (\<lambda>_. exit 1)
         | None \<Rightarrow> seq (logging ERROR ''No flavour specified.'') (\<lambda>_. exit 1)))))"

section \<open>Commands\<close>

definition init :: "world \<Rightarrow> pyobj \<Rightarrow> unit prog" where
  "init w cli_obj =
     seq (getattr cli_obj ''flavour'') (\<lambda>fl.
     seq (print (''Initializing '' @ py_format fl @ '' application...'')) (\<lambda>_.
     seq (getattr cli_obj ''flavour'') (\<lambda>fl.
     seq (cookiecutter w fl) (\<lambda>context.
     seq (getattr cli_obj ''config'') (\<lambda>c.
     case c of
       PConfig config \<Rightarrow>
         seq open_w (\<lambda>_.
         seq (config_read config) (\<lambda>config.
         if config ''cli'' \<noteq> None then
           logging ERROR (''An invenio-cli configuration file '' @
                          ''('' @ CONFIG_FILENAME @ '')'' @
                          ''already exists. Cannot override'')
         else
           seq (getattr cli_obj ''flavour'') (\<lambda>fl.
           case fl of
             PStr v \<Rightarrow> config_write (config(''cli'' \<mapsto> [''cwd'' \<mapsto> context, ''flavour'' \<mapsto> v]))
           | _ \<Rightarrow> raise TypeError)))
     | _ \<Rightarrow> raise (AttributeError ''read''))))))"

definition build :: "world \<Rightarrow> pyobj \<Rightarrow> bool \<Rightarrow> bool \<Rightarrow> bool \<Rightarrow> bool \<Rightarrow> unit prog" where
  "build w cli_obj base app dev lock =
     seq (getattr cli_obj ''flavour'') (\<lambda>fl.
     seq (print (''Building '' @ py_format fl @ '' application...'')) (\<lambda>_.
     seq (if lock then
            seq (print ''Locking dependencies...'') (\<lambda>_.
            seq (getattr cli_obj ''cwd'') (\<lambda>cwd.
            seq (external w (Subprocess_call [''pipenv'', ''lock''] cwd)) (\<lambda>_. ret ())))
          else ret ()) (\<lambda>_.
     if dev then
       seq (print ''Bootstrapping development server...'') (\<lambda>_.
       seq (getattr cli_obj ''cwd'') (\<lambda>cwd.
       seq (external w (Subprocess_call [''/bin/bash'', ''scripts/bootstrap'', ''--dev''] cwd)) (\<lambda>_.
       seq (print ''Creating development services...'') (\<lambda>_.
       seq (getattr cli_obj ''cwd'') (\<lambda>cwd.
       seq (external w (Create_containers True cwd)) (\<lambda>_. ret ()))))))
     else
       seq (if base then
              seq (getattr cli_obj ''flavour'') (\<lambda>fl.
              seq (print (''Building '' @ py_format fl @ '' base docker image...'')) (\<lambda>_.
              seq (getattr cli_obj ''cwd'') (\<lambda>path.
              seq (getattr cli_obj ''cwd'') (\<lambda>project_name.
              seq (external w (Docker_build path ''Dockerfile.base''
                                 (py_format project_name @ ''-base:latest''))) (\<lambda>_. ret ())))))
            else ret ()) (\<lambda>_.
       seq (if app then
              seq (getattr cli_obj ''flavour'') (\<lambda>fl.
              seq (print (''Building '' @ py_format fl @ '' app docker image...'')) (\<lambda>_.
              seq (getattr cli_obj ''cwd'') (\<lambda>path.
              seq (getattr cli_obj ''cwd'') (\<lambda>project_name.
              seq (external w (Docker_build path ''Dockerfile''
                                 (py_format project_name @ '':latest''))) (\<lambda>_. ret ())))))
            else ret ()) (\<lambda>_.
       seq (print ''Creating full services...'') (\<lambda>_.
       seq (getattr cli_obj ''cwd'') (\<lambda>cwd.
       seq (external w (Create_containers False cwd)) (\<lambda>_. ret ()))))))))"

definition setup_command :: "world \<Rightarrow> pyobj \<Rightarrow> bool \<Rightarrow> unit prog" where
  "setup_command w app_builder dev =
     seq (getattr app_builder ''name'') (\<lambda>name.
     seq (print (''Setting up environment for '' @ py_format name @ '' application...'')) (\<lambda>_.
     if dev then
       seq (getattr app_builder ''project_name'') (\<lambda>cwd.
       seq (external w (Subprocess_call [''/bin/bash'', ''scripts/setup'', ''--dev''] cwd))
         (\<lambda>_. ret ()))
     else
       seq (print ''Setting up instance...'') (\<lambda>_.
       seq (getattr app_builder ''project_name'') (\<lambda>cwd.
       seq (external w (Subprocess_call
              [''docker-compose'', ''exec'', ''web-api'', ''/bin/bash'', ''-c'',
               ''/bin/bash /opt/invenio/src/scripts/setup''] cwd))
         (\<lambda>_. ret ())))))"

subsection \<open>The server command and its interrupt handler\<close>

text \<open>
  \<^verbatim>\<open>signal_handler\<close>, the closure that \<^verbatim>\<open>server\<close> installs for \<^verbatim>\<open>SIGINT\<close>.
\<close>

definition signal_handler :: "world \<Rightarrow> pyobj \<Rightarrow> unit prog" where
  "signal_handler w app_builder =
     seq (print ''SIGINT, stopping server...'') (\<lambda>_.
     seq (getattr app_builder ''project_name'') (\<lambda>cwd.
     seq (external w (Stop_containers cwd)) (\<lambda>_. ret ())))"

text \<open>
  Python runs a signal handler in the main thread, between two steps of the program.
  \<open>deliver installed w obj n\<close> stands for \<open>n\<close> dispatches of \<^verbatim>\<open>SIGINT\<close> at one
  such point (signals that arrive while one is still pending are merged by the
  interpreter and count as one dispatch): under the default disposition the first one
  raises \<^verbatim>\<open>KeyboardInterrupt\<close>; once
  \<^verbatim>\<open>signal.signal(signal.SIGINT, signal_handler)\<close> has run, each dispatch runs the
  handler's body, which has no guard of its own.
\<close>

primrec handle_sigints :: "world \<Rightarrow> pyobj \<Rightarrow> nat \<Rightarrow> unit prog" where
  "handle_sigints w app_builder 0 = ret ()"
| "handle_sigints w app_builder (Suc n) =
     seq (signal_handler w app_builder) (\<lambda>_. handle_sigints w app_builder n)"

definition deliver :: "bool \<Rightarrow> world \<Rightarrow> pyobj \<Rightarrow> nat \<Rightarrow> unit prog" where
  "deliver installed w app_builder n =
     (if installed then handle_sigints w app_builder n
      else if n = 0 then ret () else raise KeyboardInterrupt)"

text \<open>
  \<open>sigint k\<close> is the number of interrupt dispatches at point \<open>k\<close> of the command:
  point 0 lies before the handler is installed, point 1 after it, point 2 after the
  containers were started, point 3 while the foreground script runs.
\<close>

definition server :: "world \<Rightarrow> pyobj \<Rightarrow> bool \<Rightarrow> bool \<Rightarrow> bool \<Rightarrow> (nat \<Rightarrow> nat) \<Rightarrow> unit prog" where
  "server w app_builder dev bg start sigint =
     seq (getattr app_builder ''name'') (\<lambda>name.
     seq (print (''Starting/Stopping server for '' @ py_format name @ '' application...'')) (\<lambda>_.
     seq (deliver False w app_builder (sigint 0)) (\<lambda>_.
     if start then
       seq (deliver True w app_builder (sigint 1)) (\<lambda>_.
       if dev then
         seq (getattr app_builder ''project_name'') (\<lambda>cwd.
         seq (external w (Start_containers True cwd bg)) (\<lambda>_.
         seq (deliver True w app_builder (sigint 2)) (\<lambda>_.
         seq (getattr app_builder ''project_name'') (\<lambda>cwd.
         seq (external w (Subprocess_call [''/bin/bash'', ''scripts/server''] cwd)) (\<lambda>_.
         deliver True w app_builder (sigint 3))))))
       else
         seq (getattr app_builder ''project_name'') (\<lambda>cwd.
         seq (external w (Start_containers False cwd bg)) (\<lambda>_.
         deliver True w app_builder (sigint 2))))
     else
       seq (getattr app_builder ''project_name'') (\<lambda>cwd.
       seq (external w (Stop_containers cwd)) (\<lambda>_. ret ())))))"

definition destroy :: "world \<Rightarrow> pyobj \<Rightarrow> bool \<Rightarrow> unit prog" where
  "destroy w app_builder dev =
     seq (getattr app_builder ''name'') (\<lambda>name.
     seq (print (''Destroying '' @ py_format name @ '' application...'')) (\<lambda>_.
     seq (getattr app_builder ''project_name'') (\<lambda>cwd.
     seq (external w (Destroy_containers dev cwd)) (\<lambda>_. ret ()))))"

definition upgrade :: "world \<Rightarrow> pyobj \<Rightarrow> unit prog" where
  "upgrade w app_builder =
     seq (getattr app_builder ''name'') (\<lambda>name.
     seq (print (''Upgrading server for '' @ py_format name @ '' application...'')) (\<lambda>_.
     print ''ERROR: Not supported yet...''))"

subsection \<open>The command group\<close>

datatype command =
    Init
  | Build bool bool bool bool
  | Setup bool
  | Server bool bool bool "nat \<Rightarrow> nat"
  | Destroy bool
  | Upgrade

fun dispatch :: "world \<Rightarrow> pyobj \<Rightarrow> command \<Rightarrow> unit prog" where
  "dispatch w obj Init = init w obj"
| "dispatch w obj (Build base app dev lock) = build w obj base app dev lock"
| "dispatch w obj (Setup dev) = setup_command w obj dev"
| "dispatch w obj (Server dev bg start sigint) = server w obj dev bg start sigint"
| "dispatch w obj (Destroy dev) = destroy w obj dev"
| "dispatch w obj Upgrade = upgrade w obj"

text \<open>
  \<^verbatim>\<open>cli\<close> builds the \<^verbatim>\<open>InvenioCli\<close> object from the \<^verbatim>\<open>--flavour\<close> option and
  hands it to the chosen command.
\<close>

definition cli :: "world \<Rightarrow> string option \<Rightarrow> command \<Rightarrow> unit prog" where
  "cli w flavour cmd = seq (InvenioCli_init flavour) (\<lambda>obj. dispatch w obj cmd)"

text \<open>A fresh process in a project directory whose config file is \<open>f\<close>.\<close>

definition start_state :: "ini_file option \<Rightarrow> state" where
  "start_state f = \<lparr>fs = f, calls = [], stdout = [], logged = []\<rparr>"

section \<open>Reference behaviour and sample inputs\<close>

subsection \<open>The fixed sequence of build\<close>

text \<open>
  The external steps of a build invocation, in order, for an object whose working
  directory attribute is \<open>cwd\<close>; \<open>issued\<close> cuts a sequence after the first step that
  raises, and \<open>run_steps\<close> executes a sequence and discards every return code.
\<close>

definition build_steps :: "pyval \<Rightarrow> bool \<Rightarrow> bool \<Rightarrow> bool \<Rightarrow> bool \<Rightarrow> call list" where
  "build_steps cwd base app dev lock =
     (if lock then [Subprocess_call [''pipenv'', ''lock''] cwd] else []) @
     (if dev then
        [Subprocess_call [''/bin/bash'', ''scripts/bootstrap'', ''--dev''] cwd,
         Create_containers True cwd]
      else
        (if base then [Docker_build cwd ''Dockerfile.base'' (py_format cwd @ ''-base:latest'')]
         else []) @
        (if app then [Docker_build cwd ''Dockerfile'' (py_format cwd @ '':latest'')] else []) @
        [Create_containers False cwd])"

fun issued :: "world \<Rightarrow> call list \<Rightarrow> call list" where
  "issued w [] = []"
| "issued w (c # cs) = c # (if run w c = None then [] else issued w cs)"

fun run_steps :: "world \<Rightarrow> call list \<Rightarrow> unit prog" where
  "run_steps w [] = ret ()"
| "run_steps w (c # cs) = seq (external w c) (\<lambda>_. run_steps w cs)"


subsection \<open>Sample inputs\<close>

text \<open>
  The record that \<^verbatim>\<open>init\<close> persists for flavour \<^verbatim>\<open>RDM\<close> and project directory
  \<^verbatim>\<open>my-site\<close>, the object loaded from it, a file that lacks \<^verbatim>\<open>cwd\<close>, an
  environment where every call returns 0, one where the dependency lock returns 1, and
  two interrupts that are handled while the foreground script runs.
\<close>

definition rdm_file :: ini_file where
  "rdm_file = [''cli'' \<mapsto> [''cwd'' \<mapsto> ''my-site'', ''flavour'' \<mapsto> ''RDM'']]"

definition rdm_obj :: pyobj where
  "rdm_obj = [''config'' \<mapsto> PConfig rdm_file, ''flavour'' \<mapsto> PStr ''RDM'',
              ''cwd'' \<mapsto> PStr ''my-site'']"

definition flavour_only_file :: ini_file where
  "flavour_only_file = [''cli'' \<mapsto> [''flavour'' \<mapsto> ''RDM'']]"

definition ok_world :: world where
  "ok_world = \<lparr>provision = (\<lambda>_. Some ''my-site''), run = (\<lambda>_. Some 0)\<rparr>"

definition failing_lock_world :: world where
  "failing_lock_world =
     \<lparr>provision = (\<lambda>_. Some ''my-site''),
      run = (\<lambda>c. if c = Subprocess_call [''pipenv'', ''lock''] (PStr ''my-site'')
                  then Some 1 else Some 0)\<rparr>"

definition two_sigints :: "nat \<Rightarrow> nat" where
  "two_sigints k = (if k = 3 then 2 else 0)"

section \<open>Evaluation rules\<close>

lemma seq_ret [simp]: "seq (ret a) f = f a"
  by (rule ext) (simp add: seq_def ret_def)

lemma seq_raise [simp]: "seq (raise e) f = raise e"
  by (rule ext) (simp add: seq_def raise_def)

lemma seq_exit [simp]: "seq (exit n) f = exit n"
  by (rule ext) (simp add: seq_def exit_def)

lemma seq_print [simp]: "seq (print x) f s = f () (s\<lparr>stdout := stdout s @ [x]\<rparr>)"
  by (simp add: seq_def print_def)

lemma seq_logging [simp]: "seq (logging l x) f s = f () (s\<lparr>logged := logged s @ [(l, x)]\<rparr>)"
  by (simp add: seq_def logging_def)

lemma seq_getattr [simp]:
  "seq (getattr obj n) f = (case obj n of None \<Rightarrow> raise (AttributeError n) | Some v \<Rightarrow> f v)"
  by (simp add: getattr_def split: option.split)

lemma seq_external [simp]:
  "seq (external w c) f s =
     (case run w c of
        None \<Rightarrow> (Inl (Uncaught (ExternalError c)), s\<lparr>calls := calls s @ [c]\<rparr>)
      | Some rc \<Rightarrow> f rc (s\<lparr>calls := calls s @ [c]\<rparr>))"
  by (simp add: seq_def external_def split: option.split)

lemma seq_cookiecutter [simp]:
  "seq (cookiecutter w fl) f s =
     (case provision w fl of
        None \<Rightarrow> (Inl (Uncaught (ExternalError (Cookiecutter fl))),
                 s\<lparr>calls := calls s @ [Cookiecutter fl]\<rparr>)
      | Some d \<Rightarrow> f d (s\<lparr>calls := calls s @ [Cookiecutter fl]\<rparr>))"
  by (simp add: seq_def cookiecutter_def split: option.split)

lemma seq_isfile [simp]: "seq isfile f s = f (fs s \<noteq> None) s"
  by (simp add: seq_def isfile_def)

lemma seq_config_read [simp]: "seq (config_read cfg) f s = f (merge_file cfg (fs s)) s"
  by (simp add: seq_def config_read_def)

lemma seq_open_w [simp]: "seq open_w f s = f () (s\<lparr>fs := Some Map.empty\<rparr>)"
  by (simp add: seq_def open_w_def)

lemma merge_file_absent [simp]: "merge_file cfg None = cfg"
  by (simp add: merge_file_def)

lemma merge_file_fresh [simp]: "merge_file Map.empty (Some cfg) = cfg"
  by (rule ext) (simp add: merge_file_def split: option.split)

lemma merge_file_truncated [simp]: "merge_file cfg (Some Map.empty) = cfg"
  by (rule ext) (simp add: merge_file_def)

subsection \<open>Loading\<close>

text \<open>What loading gives, by cases on the file and the option.\<close>

lemma load_absent:
  "fs s = None \<Longrightarrow>
   InvenioCli_init flavour s =
     (if truthy flavour
      then (Inr [''cwd'' \<mapsto> PNone, ''config'' \<mapsto> PConfig Map.empty,
                 ''flavour'' \<mapsto> PStr (case flavour of Some x \<Rightarrow> x | None \<Rightarrow> [])], s)
      else (Inl (SystemExit 1), s\<lparr>logged := logged s @ [(ERROR, ''No flavour specified.'')]\<rparr>))"
  by (cases flavour) (simp_all add: InvenioCli_init_def Let_def ret_def exit_def)

lemma load_no_flavour:
  "fs s = Some cfg \<Longrightarrow> config_get cfg ''cli'' ''flavour'' = None \<Longrightarrow>
   InvenioCli_init flavour s =
     (Inl (SystemExit 1), s\<lparr>logged := logged s @ [(ERROR, ''Flavour not configured'')]\<rparr>)"
  by (simp add: InvenioCli_init_def Let_def exit_def)

lemma load_mismatch:
  "fs s = Some cfg \<Longrightarrow> config_get cfg ''cli'' ''flavour'' = Some p \<Longrightarrow>
   truthy flavour \<Longrightarrow> flavour \<noteq> Some p \<Longrightarrow>
   InvenioCli_init flavour s =
     (Inl (SystemExit 1),
      s\<lparr>logged := logged s @ [(ERROR, ''Config flavour in .invenio differs form the specified'')]\<rparr>)"
  by (simp add: InvenioCli_init_def Let_def exit_def)

lemma load_no_cwd:
  "fs s = Some cfg \<Longrightarrow> config_get cfg ''cli'' ''flavour'' = Some p \<Longrightarrow>
   \<not> (truthy flavour \<and> flavour \<noteq> Some p) \<Longrightarrow> config_get cfg ''cli'' ''cwd'' = None \<Longrightarrow>
   InvenioCli_init flavour s =
     (Inr [''cwd'' \<mapsto> PNone, ''config'' \<mapsto> PConfig cfg, ''flavour'' \<mapsto> PStr p],
      s\<lparr>logged := logged s @ [(DEBUG, ''Working directory not configured'')]\<rparr>)"
  by (auto simp: InvenioCli_init_def Let_def ret_def)

lemma load_full:
  "fs s = Some cfg \<Longrightarrow> config_get cfg ''cli'' ''flavour'' = Some p \<Longrightarrow>
   \<not> (truthy flavour \<and> flavour \<noteq> Some p) \<Longrightarrow> config_get cfg ''cli'' ''cwd'' = Some d \<Longrightarrow>
   InvenioCli_init flavour s =
     (Inr [''config'' \<mapsto> PConfig cfg, ''flavour'' \<mapsto> PStr p, ''cwd'' \<mapsto> PStr d], s)"
  by (auto simp: InvenioCli_init_def Let_def ret_def)

text \<open>The attributes of every object that loading returns.\<close>

lemma load_attributes:
  assumes "InvenioCli_init flavour s = (Inr obj, s')"
  shows "obj ''name'' = None" and "obj ''project_name'' = None"
    and "\<exists>v. obj ''flavour'' = Some (PStr v)" and "\<exists>c. obj ''cwd'' = Some c"
    and "\<exists>c. obj ''config'' = Some (PConfig c)"
    and "calls s' = calls s" and "fs s' = fs s" and "stdout s' = stdout s"
  using assms
  by (auto simp: InvenioCli_init_def ret_def exit_def Let_def
           split: option.splits if_splits)

lemma seq_assoc [simp]: "seq (seq m f) g = seq m (\<lambda>a. seq (f a) g)"
  by (rule ext) (simp add: seq_def split: prod.split sum.split)

lemma seq_config_write [simp]: "seq (config_write cfg) f s = f () (s\<lparr>fs := Some cfg\<rparr>)"
  by (simp add: seq_def config_write_def)


lemma cli_load:
  "InvenioCli_init flavour s = (Inr obj, s') \<Longrightarrow> cli w flavour cmd s = dispatch w obj cmd s'"
  by (simp add: cli_def seq_def)

lemma cli_abort:
  "InvenioCli_init flavour s = (Inl e, s') \<Longrightarrow> cli w flavour cmd s = (Inl e, s')"
  by (simp add: cli_def seq_def)

subsection \<open>Build as a refinement of its fixed sequence\<close>

lemma run_steps_calls: "calls (snd (run_steps w cs s)) = calls s @ issued w cs"
proof (induction cs arbitrary: s)
  case Nil
  show ?case by (simp add: ret_def)
next
  case (Cons c cs)
  show ?case
  proof (cases "run w c")
    case None
    then show ?thesis by simp
  next
    case (Some rc)
    then show ?thesis by (simp add: Cons.IH)
  qed
qed

lemma run_steps_ok:
  "(fst (run_steps w cs s) = Inr ()) = list_all (\<lambda>c. run w c \<noteq> None) cs"
proof (induction cs arbitrary: s)
  case Nil
  show ?case by (simp add: ret_def)
next
  case (Cons c cs)
  show ?case
  proof (cases "run w c")
    case None
    then show ?thesis by simp
  next
    case (Some rc)
    then show ?thesis by (simp add: Cons.IH)
  qed
qed

lemma build_refines:
  assumes "obj ''flavour'' = Some fl" and "obj ''cwd'' = Some cwd"
  shows "fst (build w obj base app dev lock s) =
           fst (run_steps w (build_steps cwd base app dev lock) s)"
    and "calls (snd (build w obj base app dev lock s)) =
           calls (snd (run_steps w (build_steps cwd base app dev lock) s))"
  using assms
  by (cases lock; cases dev; cases base; cases app;
      simp add: build_def build_steps_def ret_def
        option.case_distrib [of fst] option.case_distrib [of snd]
        option.case_distrib [of calls]
      cong: option.case_cong)+

lemma build_trace:
  assumes "obj ''flavour'' = Some fl" and "obj ''cwd'' = Some cwd"
  shows "calls (snd (build w obj base app dev lock s)) =
           calls s @ issued w (build_steps cwd base app dev lock)"
    and "(fst (build w obj base app dev lock s) = Inr ()) =
           list_all (\<lambda>c. run w c \<noteq> None) (build_steps cwd base app dev lock)"
  using build_refines [OF assms] by (simp_all add: run_steps_calls run_steps_ok)

lemma run_steps_logged: "logged (snd (run_steps w cs s)) = logged s"
proof (induction cs arbitrary: s)
  case Nil
  show ?case by (simp add: ret_def)
next
  case (Cons c cs)
  show ?case
  proof (cases "run w c")
    case None
    then show ?thesis by simp
  next
    case (Some rc)
    then show ?thesis by (simp add: Cons.IH)
  qed
qed

lemma build_dev_refines_logged:
  assumes "obj ''flavour'' = Some fl" and "obj ''cwd'' = Some cwd"
  shows "logged (snd (build w obj base app True lock s)) =
           logged (snd (run_steps w (build_steps cwd base app True lock) s))"
  using assms
  by (cases lock;
      simp add: build_def build_steps_def ret_def
        option.case_distrib [of snd] option.case_distrib [of logged]
      cong: option.case_cong)

subsection \<open>Sample runs\<close>

lemma load_rdm:
  "InvenioCli_init None (start_state (Some rdm_file)) = (Inr rdm_obj, start_state (Some rdm_file))"
  using load_full [of "start_state (Some rdm_file)" rdm_file "''RDM''" None "''my-site''"]
  by (simp add: start_state_def rdm_file_def rdm_obj_def config_get_def)

lemma load_flavour_only:
  "InvenioCli_init None (start_state (Some flavour_only_file)) =
     (Inr [''cwd'' \<mapsto> PNone, ''config'' \<mapsto> PConfig flavour_only_file,
           ''flavour'' \<mapsto> PStr ''RDM''],
      (start_state (Some flavour_only_file))
        \<lparr>logged := [(DEBUG, ''Working directory not configured'')]\<rparr>)"
  using load_no_cwd [of "start_state (Some flavour_only_file)" flavour_only_file "''RDM''" None]
  by (simp add: start_state_def flavour_only_file_def config_get_def)

lemma cli_rdm:
  "cli w None cmd (start_state (Some rdm_file)) =
     dispatch w rdm_obj cmd (start_state (Some rdm_file))"
  by (rule cli_load [OF load_rdm])

lemma first_init_persists:
  "fs (snd (cli ok_world (Some ''RDM'') Init (start_state None))) = Some rdm_file"
  using load_absent [of "start_state None" "Some ''RDM''"]
  by (simp add: cli_def seq_def [of "InvenioCli_init (Some ''RDM'')"] init_def start_state_def
        ok_world_def rdm_file_def config_write_def)

section \<open>Claims\<close>

subsection \<open>C1: running init again\<close>

text \<open>
  C1 says that a second \<^verbatim>\<open>init\<close> in an initialised project leaves the persisted
  record unchanged. The code opens the config file for writing before it looks for the
  \<^verbatim>\<open>cli\<close> section: whenever the file holds a \<^verbatim>\<open>cli\<close> section with a flavour
  (and the \<^verbatim>\<open>--flavour\<close> option does not contradict it) and the scaffolding call
  returns, the command logs that it cannot override, ends normally, and leaves the file
  existing but empty.
\<close>

theorem init_again_truncates_config:
  assumes "config_get cfg ''cli'' ''flavour'' = Some p"
    and "\<not> (truthy flavour \<and> flavour \<noteq> Some p)"
    and "provision w (PStr p) = Some d"
  shows "fst (cli w flavour Init (start_state (Some cfg))) = Inr () \<and>
         fs (snd (cli w flavour Init (start_state (Some cfg)))) = Some Map.empty \<and>
         calls (snd (cli w flavour Init (start_state (Some cfg)))) = [Cookiecutter (PStr p)] \<and>
         last (logged (snd (cli w flavour Init (start_state (Some cfg))))) =
           (ERROR, ''An invenio-cli configuration file (.invenio)already exists. Cannot override'')"
proof -
  obtain kv where kv: "cfg ''cli'' = Some kv"
    using assms(1) by (auto simp: config_get_def split: option.splits)
  have f: "fs (start_state (Some cfg)) = Some cfg"
    by (simp add: start_state_def)
  show ?thesis
  proof (cases "config_get cfg ''cli'' ''cwd''")
    case None
    from cli_load [OF load_no_cwd [OF f assms(1) assms(2) None]] kv assms(3)
    show ?thesis
      by (simp add: init_def logging_def start_state_def CONFIG_FILENAME_def)
  next
    case (Some c)
    from cli_load [OF load_full [OF f assms(1) assms(2) Some]] kv assms(3)
    show ?thesis
      by (simp add: init_def logging_def start_state_def CONFIG_FILENAME_def)
  qed
qed

theorem init_again_truncates_config_witness:
  "config_get rdm_file ''cli'' ''flavour'' = Some ''RDM'' \<and>
   \<not> (truthy None \<and> None \<noteq> Some ''RDM'') \<and>
   provision ok_world (PStr ''RDM'') = Some ''my-site'' \<and>
   fs (snd (cli ok_world None Init (start_state (Some rdm_file)))) = Some Map.empty \<and>
   Some Map.empty \<noteq> Some rdm_file"
proof -
  have a: "config_get rdm_file ''cli'' ''flavour'' = Some ''RDM''"
    by (simp add: config_get_def rdm_file_def)
  have b: "\<not> (truthy None \<and> None \<noteq> Some ''RDM'')"
    by simp
  have c: "provision ok_world (PStr ''RDM'') = Some ''my-site''"
    by (simp add: ok_world_def)
  have d: "Some Map.empty \<noteq> Some rdm_file"
  proof
    assume "Some Map.empty = Some rdm_file"
    then have "rdm_file ''cli'' = None" by (metis option.inject)
    then show False by (simp add: rdm_file_def)
  qed
  show ?thesis
    using a b c d init_again_truncates_config [OF a b c] by simp
qed


subsection \<open>C2: a failing step of build\<close>

text \<open>
  C2 as stated fails on the code: the dependency lock returns exit code 1 and the
  bootstrap script and the container creation still run; the command ends normally.
\<close>

theorem build_ignores_exit_code_counterexample:
  "run failing_lock_world (Subprocess_call [''pipenv'', ''lock''] (PStr ''my-site'')) = Some 1 \<and>
   fst (cli failing_lock_world None (Build False False True True)
          (start_state (Some rdm_file))) = Inr () \<and>
   calls (snd (cli failing_lock_world None (Build False False True True)
                 (start_state (Some rdm_file)))) =
     [Subprocess_call [''pipenv'', ''lock''] (PStr ''my-site''),
      Subprocess_call [''/bin/bash'', ''scripts/bootstrap'', ''--dev''] (PStr ''my-site''),
      Create_containers True (PStr ''my-site'')]"
  by (simp add: cli_rdm)
    (simp add: build_def rdm_obj_def failing_lock_world_def start_state_def ret_def)

text \<open>
  C2, amended: build never looks at a return code. It issues its steps in their fixed
  order up to and including the first one that raises an exception (all of them when none
  raises), and it ends normally exactly when no step raised. Nothing is rolled back.
\<close>

theorem build_runs_until_exception:
  assumes "InvenioCli_init flavour s = (Inr obj, s')" and "obj ''cwd'' = Some cwd"
  shows "calls (snd (cli w flavour (Build base app dev lock) s)) =
           calls s @ issued w (build_steps cwd base app dev lock) \<and>
         (fst (cli w flavour (Build base app dev lock) s) = Inr ()) =
           list_all (\<lambda>c. run w c \<noteq> None) (build_steps cwd base app dev lock)"
proof -
  obtain v where v: "obj ''flavour'' = Some (PStr v)"
    using load_attributes(3) [OF assms(1)] by blast
  have c: "calls s' = calls s"
    by (rule load_attributes(6) [OF assms(1)])
  show ?thesis
    using build_trace [OF v assms(2), of w base app dev lock s'] c
    by (simp add: cli_load [OF assms(1)])
qed

theorem build_runs_until_exception_witness:
  "InvenioCli_init None (start_state (Some rdm_file)) =
     (Inr rdm_obj, start_state (Some rdm_file)) \<and>
   rdm_obj ''cwd'' = Some (PStr ''my-site'') \<and>
   calls (snd (cli failing_lock_world None (Build False False True True)
                 (start_state (Some rdm_file)))) =
     [Subprocess_call [''pipenv'', ''lock''] (PStr ''my-site''),
      Subprocess_call [''/bin/bash'', ''scripts/bootstrap'', ''--dev''] (PStr ''my-site''),
      Create_containers True (PStr ''my-site'')] \<and>
   fst (cli failing_lock_world None (Build False False True True)
          (start_state (Some rdm_file))) = Inr ()"
proof -
  have a: "rdm_obj ''cwd'' = Some (PStr ''my-site'')"
    by (simp add: rdm_obj_def)
  show ?thesis
    using load_rdm a
      build_runs_until_exception [OF load_rdm a, of failing_lock_world False False True True]
    by (simp add: build_steps_def failing_lock_world_def start_state_def)
qed

subsection \<open>C3: setup, server and destroy\<close>

text \<open>
  C3: whenever loading succeeds, the object has no attribute \<^verbatim>\<open>name\<close> and no
  attribute \<^verbatim>\<open>project_name\<close>; setup, server and destroy, whatever their flags and
  whatever interrupts arrive, end with the uncaught \<^verbatim>\<open>AttributeError\<close> for
  \<^verbatim>\<open>name\<close> in the state that loading left: nothing printed, no external call.
\<close>

theorem handlers_read_unassigned_attribute:
  assumes "InvenioCli_init flavour s = (Inr obj, s')"
  shows "obj ''name'' = None \<and> obj ''project_name'' = None \<and> calls s' = calls s \<and>
         cli w flavour (Setup dev) s = (Inl (Uncaught (AttributeError ''name'')), s') \<and>
         cli w flavour (Server dev bg start sigint) s =
           (Inl (Uncaught (AttributeError ''name'')), s') \<and>
         cli w flavour (Destroy dev) s = (Inl (Uncaught (AttributeError ''name'')), s')"
  using load_attributes(1,2,6) [OF assms]
  by (simp add: cli_load [OF assms] setup_command_def server_def destroy_def raise_def)

theorem handlers_read_unassigned_attribute_witness:
  "InvenioCli_init None (start_state (Some rdm_file)) =
     (Inr rdm_obj, start_state (Some rdm_file)) \<and>
   cli ok_world None (Setup True) (start_state (Some rdm_file)) =
     (Inl (Uncaught (AttributeError ''name'')), start_state (Some rdm_file)) \<and>
   cli ok_world None (Server True False True two_sigints) (start_state (Some rdm_file)) =
     (Inl (Uncaught (AttributeError ''name'')), start_state (Some rdm_file)) \<and>
   cli ok_world None (Destroy False) (start_state (Some rdm_file)) =
     (Inl (Uncaught (AttributeError ''name'')), start_state (Some rdm_file)) \<and>
   calls (start_state (Some rdm_file)) = []"
  using load_rdm
    handlers_read_unassigned_attribute [OF load_rdm, of ok_world True False True two_sigints]
    handlers_read_unassigned_attribute [OF load_rdm, of ok_world False False True two_sigints]
  by (simp add: start_state_def)

subsection \<open>C4: flavour mismatch\<close>

text \<open>
  C4: when the config file persists flavour \<open>P\<close> and the option supplies a non-empty
  \<open>F\<close> different from \<open>P\<close>, every command ends with \<^verbatim>\<open>exit(1)\<close>, having issued no
  external call, printed nothing and left the file as it was.
\<close>

theorem flavour_mismatch_is_fatal:
  assumes "config_get cfg ''cli'' ''flavour'' = Some P" and "F \<noteq> []" and "F \<noteq> P"
  shows "fst (cli w (Some F) cmd (start_state (Some cfg))) = Inl (SystemExit 1) \<and>
         calls (snd (cli w (Some F) cmd (start_state (Some cfg)))) = [] \<and>
         fs (snd (cli w (Some F) cmd (start_state (Some cfg)))) = Some cfg \<and>
         stdout (snd (cli w (Some F) cmd (start_state (Some cfg)))) = []"
proof -
  have f: "fs (start_state (Some cfg)) = Some cfg"
    by (simp add: start_state_def)
  have t: "truthy (Some F)" and n: "Some F \<noteq> Some P"
    using assms by simp_all
  show ?thesis
    unfolding cli_abort [OF load_mismatch [OF f assms(1) t n]]
    by (simp add: start_state_def)
qed

theorem flavour_mismatch_is_fatal_witness:
  "config_get rdm_file ''cli'' ''flavour'' = Some ''RDM'' \<and> ''rdm'' \<noteq> [] \<and> ''rdm'' \<noteq> ''RDM'' \<and>
   fst (cli ok_world (Some ''rdm'') (Build False False True True)
          (start_state (Some rdm_file))) = Inl (SystemExit 1) \<and>
   calls (snd (cli ok_world (Some ''rdm'') (Build False False True True)
                 (start_state (Some rdm_file)))) = []"
proof -
  have a: "config_get rdm_file ''cli'' ''flavour'' = Some ''RDM''"
    by (simp add: config_get_def rdm_file_def)
  have b: "''rdm'' \<noteq> []" and c: "''rdm'' \<noteq> ''RDM''"
    by simp_all
  show ?thesis
    using a b c flavour_mismatch_is_fatal [OF a b c, of ok_world "Build False False True True"]
    by simp
qed

subsection \<open>C5: dev mode together with image building\<close>

text \<open>
  C5 as stated fails on the code: \<^verbatim>\<open>build --dev --base\<close> ends normally after three
  external calls, none of them an image build.
\<close>

theorem build_dev_base_counterexample:
  "fst (cli ok_world None (Build True False True True) (start_state (Some rdm_file))) = Inr () \<and>
   calls (snd (cli ok_world None (Build True False True True) (start_state (Some rdm_file)))) =
     [Subprocess_call [''pipenv'', ''lock''] (PStr ''my-site''),
      Subprocess_call [''/bin/bash'', ''scripts/bootstrap'', ''--dev''] (PStr ''my-site''),
      Create_containers True (PStr ''my-site'')]"
  by (simp add: cli_rdm)
    (simp add: build_def rdm_obj_def ok_world_def start_state_def ret_def)

text \<open>
  C5, amended: in dev mode build ignores the base and app flags. For every configuration
  that loads, the invocation behaves exactly as the same invocation without them: it
  issues the dependency lock if requested, the bootstrap script and the creation of the
  dev containers, in this order and up to the first step that raises, and no image build;
  it ends normally exactly when no step raises, and it logs no error.
\<close>

theorem build_dev_ignores_base_app:
  assumes "InvenioCli_init flavour s = (Inr obj, s')" and "obj ''cwd'' = Some cwd"
  shows "cli w flavour (Build base app True lock) s =
           cli w flavour (Build False False True lock) s \<and>
         calls (snd (cli w flavour (Build base app True lock) s)) =
           calls s @ issued w
             ((if lock then [Subprocess_call [''pipenv'', ''lock''] cwd] else []) @
              [Subprocess_call [''/bin/bash'', ''scripts/bootstrap'', ''--dev''] cwd,
               Create_containers True cwd]) \<and>
         (fst (cli w flavour (Build base app True lock) s) = Inr ()) =
           list_all (\<lambda>c. run w c \<noteq> None)
             ((if lock then [Subprocess_call [''pipenv'', ''lock''] cwd] else []) @
              [Subprocess_call [''/bin/bash'', ''scripts/bootstrap'', ''--dev''] cwd,
               Create_containers True cwd]) \<and>
         logged (snd (cli w flavour (Build base app True lock) s)) = logged s'"
proof -
  obtain v where v: "obj ''flavour'' = Some (PStr v)"
    using load_attributes(3) [OF assms(1)] by blast
  have c: "calls s' = calls s"
    by (rule load_attributes(6) [OF assms(1)])
  have st: "build_steps cwd base app True lock =
              (if lock then [Subprocess_call [''pipenv'', ''lock''] cwd] else []) @
              [Subprocess_call [''/bin/bash'', ''scripts/bootstrap'', ''--dev''] cwd,
               Create_containers True cwd]"
    by (simp add: build_steps_def)
  note t = build_trace [where obj = obj, OF v assms(2), of w base app True lock s']
  have 1: "cli w flavour (Build base app True lock) s =
             cli w flavour (Build False False True lock) s"
    by (simp add: cli_def build_def)
  have 2: "calls (snd (cli w flavour (Build base app True lock) s)) =
             calls s @ issued w (build_steps cwd base app True lock)"
    using t(1) c by (simp add: cli_load [OF assms(1)])
  have 3: "(fst (cli w flavour (Build base app True lock) s) = Inr ()) =
             list_all (\<lambda>c. run w c \<noteq> None) (build_steps cwd base app True lock)"
    using t(2) by (simp add: cli_load [OF assms(1)])
  have 4: "logged (snd (cli w flavour (Build base app True lock) s)) = logged s'"
    using build_dev_refines_logged [where obj = obj, OF v assms(2), of w base app lock s']
    by (simp add: cli_load [OF assms(1)] run_steps_logged)
  show ?thesis
    using 1 2 3 4 unfolding st by blast
qed

theorem build_dev_ignores_base_app_witness:
  "InvenioCli_init None (start_state (Some rdm_file)) =
     (Inr rdm_obj, start_state (Some rdm_file)) \<and>
   rdm_obj ''cwd'' = Some (PStr ''my-site'') \<and>
   fst (cli ok_world None (Build True True True True) (start_state (Some rdm_file))) = Inr () \<and>
   calls (snd (cli ok_world None (Build True True True True) (start_state (Some rdm_file)))) =
     [Subprocess_call [''pipenv'', ''lock''] (PStr ''my-site''),
      Subprocess_call [''/bin/bash'', ''scripts/bootstrap'', ''--dev''] (PStr ''my-site''),
      Create_containers True (PStr ''my-site'')] \<and>
   logged (snd (cli ok_world None (Build True True True True) (start_state (Some rdm_file)))) = []"
proof -
  have a: "rdm_obj ''cwd'' = Some (PStr ''my-site'')"
    by (simp add: rdm_obj_def)
  show ?thesis
    using load_rdm a
      build_dev_ignores_base_app [OF load_rdm a, of ok_world True True True, THEN conjunct2]
    by (simp add: ok_world_def start_state_def)
qed

subsection \<open>C6: build --prod --base --app --no-lock\<close>

text \<open>
  C6: started in a fresh process whose configuration loads, and with the three calls
  returning, \<^verbatim>\<open>build --prod --base --app --no-lock\<close> issues exactly the base image
  build, the app image build and the creation of the full container set, in this order;
  no dependency lock is among them.
\<close>

theorem build_prod_base_app_no_lock:
  assumes "InvenioCli_init flavour (start_state f) = (Inr obj, s')"
    and "obj ''cwd'' = Some cwd"
    and "run w (Docker_build cwd ''Dockerfile.base'' (py_format cwd @ ''-base:latest'')) \<noteq> None"
    and "run w (Docker_build cwd ''Dockerfile'' (py_format cwd @ '':latest'')) \<noteq> None"
    and "run w (Create_containers False cwd) \<noteq> None"
  shows "fst (cli w flavour (Build True True False False) (start_state f)) = Inr () \<and>
         calls (snd (cli w flavour (Build True True False False) (start_state f))) =
           [Docker_build cwd ''Dockerfile.base'' (py_format cwd @ ''-base:latest''),
            Docker_build cwd ''Dockerfile'' (py_format cwd @ '':latest''),
            Create_containers False cwd]"
proof -
  obtain v where v: "obj ''flavour'' = Some (PStr v)"
    using load_attributes(3) [OF assms(1)] by blast
  have c: "calls s' = []"
    using load_attributes(6) [OF assms(1)] by (simp add: start_state_def)
  show ?thesis
    using build_trace [OF v assms(2), of w True True False False s'] c assms(3,4,5)
    by (simp add: cli_load [OF assms(1)] build_steps_def)
qed

theorem build_prod_base_app_no_lock_witness:
  "InvenioCli_init None (start_state (Some rdm_file)) =
     (Inr rdm_obj, start_state (Some rdm_file)) \<and>
   rdm_obj ''cwd'' = Some (PStr ''my-site'') \<and>
   run ok_world (Docker_build (PStr ''my-site'') ''Dockerfile.base'' ''my-site-base:latest'') \<noteq> None \<and>
   run ok_world (Docker_build (PStr ''my-site'') ''Dockerfile'' ''my-site:latest'') \<noteq> None \<and>
   run ok_world (Create_containers False (PStr ''my-site'')) \<noteq> None \<and>
   calls (snd (cli ok_world None (Build True True False False) (start_state (Some rdm_file)))) =
     [Docker_build (PStr ''my-site'') ''Dockerfile.base'' ''my-site-base:latest'',
      Docker_build (PStr ''my-site'') ''Dockerfile'' ''my-site:latest'',
      Create_containers False (PStr ''my-site'')]"
proof -
  have a: "rdm_obj ''cwd'' = Some (PStr ''my-site'')"
    by (simp add: rdm_obj_def)
  have b: "run ok_world (Docker_build (PStr ''my-site'') ''Dockerfile.base''
             (py_format (PStr ''my-site'') @ ''-base:latest'')) \<noteq> None"
    and c: "run ok_world (Docker_build (PStr ''my-site'') ''Dockerfile''
             (py_format (PStr ''my-site'') @ '':latest'')) \<noteq> None"
    and d: "run ok_world (Create_containers False (PStr ''my-site'')) \<noteq> None"
    by (simp_all add: ok_world_def)
  show ?thesis
    using load_rdm a b c d build_prod_base_app_no_lock [OF load_rdm a b c d]
    by simp
qed


subsection \<open>C7: interrupts during server --start --dev\<close>



subsection \<open>C8: configuration loading\<close>

text \<open>
  C8 as stated fails on the code: a config file that holds the flavour and lacks
  \<^verbatim>\<open>cwd\<close> loads, with the working directory left at \<^verbatim>\<open>None\<close>.
\<close>

theorem load_without_cwd_counterexample:
  "config_get flavour_only_file ''cli'' ''cwd'' = None \<and>
   fst (InvenioCli_init None (start_state (Some flavour_only_file))) =
     Inr [''cwd'' \<mapsto> PNone, ''config'' \<mapsto> PConfig flavour_only_file,
          ''flavour'' \<mapsto> PStr ''RDM'']"
  by (simp add: load_flavour_only) (simp add: config_get_def flavour_only_file_def)

text \<open>
  C8, amended: when the config file is absent and no flavour was supplied, loading logs
  \<^verbatim>\<open>No flavour specified.\<close> and ends the process with \<^verbatim>\<open>exit(1)\<close>; when the file
  exists and holds no \<^verbatim>\<open>cli.flavour\<close>, loading logs \<^verbatim>\<open>Flavour not configured\<close>
  and ends the process with \<^verbatim>\<open>exit(1)\<close>; when the file holds the flavour (not
  contradicted by the option) and lacks only \<^verbatim>\<open>cwd\<close>, loading succeeds: it returns
  the object with \<^verbatim>\<open>cwd\<close> left at \<^verbatim>\<open>None\<close> and logs one debug record.
\<close>

theorem load_outcomes:
  "(fs s = None \<and> \<not> truthy flavour \<longrightarrow>
      InvenioCli_init flavour s =
        (Inl (SystemExit 1), s\<lparr>logged := logged s @ [(ERROR, ''No flavour specified.'')]\<rparr>)) \<and>
   (fs s = Some cfg \<and> config_get cfg ''cli'' ''flavour'' = None \<longrightarrow>
      InvenioCli_init flavour s =
        (Inl (SystemExit 1), s\<lparr>logged := logged s @ [(ERROR, ''Flavour not configured'')]\<rparr>)) \<and>
   (fs s = Some cfg \<and> config_get cfg ''cli'' ''flavour'' = Some p \<and>
    \<not> (truthy flavour \<and> flavour \<noteq> Some p) \<and> config_get cfg ''cli'' ''cwd'' = None \<longrightarrow>
      InvenioCli_init flavour s =
        (Inr [''cwd'' \<mapsto> PNone, ''config'' \<mapsto> PConfig cfg, ''flavour'' \<mapsto> PStr p],
         s\<lparr>logged := logged s @ [(DEBUG, ''Working directory not configured'')]\<rparr>))"
proof (intro conjI impI)
  assume "fs s = None \<and> \<not> truthy flavour"
  then show "InvenioCli_init flavour s =
      (Inl (SystemExit 1), s\<lparr>logged := logged s @ [(ERROR, ''No flavour specified.'')]\<rparr>)"
    by (simp add: load_absent)
next
  assume "fs s = Some cfg \<and> config_get cfg ''cli'' ''flavour'' = None"
  then show "InvenioCli_init flavour s =
      (Inl (SystemExit 1), s\<lparr>logged := logged s @ [(ERROR, ''Flavour not configured'')]\<rparr>)"
    by (simp add: load_no_flavour)
next
  assume h: "fs s = Some cfg \<and> config_get cfg ''cli'' ''flavour'' = Some p \<and>
    \<not> (truthy flavour \<and> flavour \<noteq> Some p) \<and> config_get cfg ''cli'' ''cwd'' = None"
  show "InvenioCli_init flavour s =
      (Inr [''cwd'' \<mapsto> PNone, ''config'' \<mapsto> PConfig cfg, ''flavour'' \<mapsto> PStr p],
       s\<lparr>logged := logged s @ [(DEBUG, ''Working directory not configured'')]\<rparr>)"
    using h by (intro load_no_cwd) simp_all
qed

theorem load_outcomes_witness:
  "fs (start_state None) = None \<and> \<not> truthy None \<and>
   InvenioCli_init None (start_state None) =
     (Inl (SystemExit 1), (start_state None)\<lparr>logged := [(ERROR, ''No flavour specified.'')]\<rparr>) \<and>
   fs (start_state (Some Map.empty)) = Some Map.empty \<and>
   config_get Map.empty ''cli'' ''flavour'' = None \<and>
   InvenioCli_init (Some ''RDM'') (start_state (Some Map.empty)) =
     (Inl (SystemExit 1),
      (start_state (Some Map.empty))\<lparr>logged := [(ERROR, ''Flavour not configured'')]\<rparr>) \<and>
   fs (start_state (Some flavour_only_file)) = Some flavour_only_file \<and>
   config_get flavour_only_file ''cli'' ''flavour'' = Some ''RDM'' \<and>
   config_get flavour_only_file ''cli'' ''cwd'' = None \<and>
   InvenioCli_init None (start_state (Some flavour_only_file)) =
     (Inr [''cwd'' \<mapsto> PNone, ''config'' \<mapsto> PConfig flavour_only_file,
           ''flavour'' \<mapsto> PStr ''RDM''],
      (start_state (Some flavour_only_file))
        \<lparr>logged := [(DEBUG, ''Working directory not configured'')]\<rparr>)"
proof -
  have a: "fs (start_state None) = None" and a': "\<not> truthy None"
    by (simp_all add: start_state_def)
  have b: "fs (start_state (Some Map.empty)) = Some Map.empty"
    and b': "config_get Map.empty ''cli'' ''flavour'' = None"
    by (simp_all add: start_state_def config_get_def)
  have c: "fs (start_state (Some flavour_only_file)) = Some flavour_only_file"
    and c': "config_get flavour_only_file ''cli'' ''flavour'' = Some ''RDM''"
    and c'': "config_get flavour_only_file ''cli'' ''cwd'' = None"
    and c''': "\<not> (truthy None \<and> None \<noteq> Some ''RDM'')"
    by (simp_all add: start_state_def config_get_def flavour_only_file_def)
  have l0: "logged (start_state None) = []"
    and l1: "logged (start_state (Some Map.empty)) = []"
    and l2: "logged (start_state (Some flavour_only_file)) = []"
    by (simp_all add: start_state_def)
  from load_outcomes [of "start_state None" None]
  have 1: "InvenioCli_init None (start_state None) =
     (Inl (SystemExit 1), (start_state None)\<lparr>logged := [(ERROR, ''No flavour specified.'')]\<rparr>)"
    using a a' l0 by simp
  from load_outcomes [of "start_state (Some Map.empty)" "Some ''RDM''" Map.empty]
  have 2: "InvenioCli_init (Some ''RDM'') (start_state (Some Map.empty)) =
     (Inl (SystemExit 1),
      (start_state (Some Map.empty))\<lparr>logged := [(ERROR, ''Flavour not configured'')]\<rparr>)"
    using b b' l1 by simp
  from load_outcomes [of "start_state (Some flavour_only_file)" None flavour_only_file "''RDM''"]
  have 3: "InvenioCli_init None (start_state (Some flavour_only_file)) =
     (Inr [''cwd'' \<mapsto> PNone, ''config'' \<mapsto> PConfig flavour_only_file,
           ''flavour'' \<mapsto> PStr ''RDM''],
      (start_state (Some flavour_only_file))
        \<lparr>logged := [(DEBUG, ''Working directory not configured'')]\<rparr>)"
    using c c' c'' c''' l2 by simp
  show ?thesis
    using a a' b b' c c' c'' 1 2 3 by blast
qed

subsection \<open>C9: upgrade\<close>

text \<open>
  C9 says that upgrade always reports that it is unsupported. On the code, whenever
  loading succeeds, upgrade ends with the uncaught \<^verbatim>\<open>AttributeError\<close> for
  \<^verbatim>\<open>name\<close> in the state that loading left: it issues no external call and prints
  nothing, the line \<^verbatim>\<open>ERROR: Not supported yet...\<close> included.
\<close>

theorem upgrade_never_reports:
  assumes "InvenioCli_init flavour s = (Inr obj, s')"
  shows "cli w flavour Upgrade s = (Inl (Uncaught (AttributeError ''name'')), s') \<and>
         stdout s' = stdout s \<and> calls s' = calls s"
  using load_attributes(1,6,8) [OF assms]
  by (simp add: cli_load [OF assms] upgrade_def raise_def)

theorem upgrade_never_reports_witness:
  "InvenioCli_init None (start_state (Some rdm_file)) =
     (Inr rdm_obj, start_state (Some rdm_file)) \<and>
   cli ok_world None Upgrade (start_state (Some rdm_file)) =
     (Inl (Uncaught (AttributeError ''name'')), start_state (Some rdm_file)) \<and>
   stdout (start_state (Some rdm_file)) = []"
  using load_rdm upgrade_never_reports [OF load_rdm, of ok_world]
  by (simp add: start_state_def)

subsection \<open>C10: a config file without cwd\<close>

text \<open>
  C10: when the file holds the flavour and lacks \<^verbatim>\<open>cwd\<close> (and the option does not
  contradict the flavour), loading returns an object whose \<^verbatim>\<open>cwd\<close> is \<^verbatim>\<open>None\<close>;
  build then issues its fixed sequence with \<^verbatim>\<open>None\<close> as the working directory of
  every step, and ends normally exactly when no step raises.
\<close>

theorem missing_cwd_is_not_fatal:
  assumes "fs s = Some cfg" and "config_get cfg ''cli'' ''flavour'' = Some p"
    and "config_get cfg ''cli'' ''cwd'' = None"
    and "\<not> (truthy flavour \<and> flavour \<noteq> Some p)"
  shows "fst (InvenioCli_init flavour s) =
           Inr [''cwd'' \<mapsto> PNone, ''config'' \<mapsto> PConfig cfg, ''flavour'' \<mapsto> PStr p] \<and>
         calls (snd (cli w flavour (Build base app dev lock) s)) =
           calls s @ issued w (build_steps PNone base app dev lock) \<and>
         (fst (cli w flavour (Build base app dev lock) s) = Inr ()) =
           list_all (\<lambda>c. run w c \<noteq> None) (build_steps PNone base app dev lock)"
proof -
  define obj where "obj = [''cwd'' \<mapsto> PNone, ''config'' \<mapsto> PConfig cfg, ''flavour'' \<mapsto> PStr p]"
  have l: "InvenioCli_init flavour s =
             (Inr obj, s\<lparr>logged := logged s @ [(DEBUG, ''Working directory not configured'')]\<rparr>)"
    unfolding obj_def by (rule load_no_cwd [OF assms(1,2,4,3)])
  have fl: "obj ''flavour'' = Some (PStr p)" and cw: "obj ''cwd'' = Some PNone"
    by (simp_all add: obj_def)
  note t = build_trace [where obj = obj, OF fl cw, of w base app dev lock
      "s\<lparr>logged := logged s @ [(DEBUG, ''Working directory not configured'')]\<rparr>"]
  have 1: "fst (InvenioCli_init flavour s) =
             Inr [''cwd'' \<mapsto> PNone, ''config'' \<mapsto> PConfig cfg, ''flavour'' \<mapsto> PStr p]"
    by (simp add: l obj_def)
  have 2: "calls (snd (cli w flavour (Build base app dev lock) s)) =
             calls s @ issued w (build_steps PNone base app dev lock)"
    using t(1) by (simp add: cli_load [OF l])
  have 3: "(fst (cli w flavour (Build base app dev lock) s) = Inr ()) =
             list_all (\<lambda>c. run w c \<noteq> None) (build_steps PNone base app dev lock)"
    using t(2) by (simp add: cli_load [OF l])
  show ?thesis
    using 1 2 3 by blast
qed

theorem missing_cwd_is_not_fatal_witness:
  "fs (start_state (Some flavour_only_file)) = Some flavour_only_file \<and>
   config_get flavour_only_file ''cli'' ''flavour'' = Some ''RDM'' \<and>
   config_get flavour_only_file ''cli'' ''cwd'' = None \<and>
   \<not> (truthy None \<and> None \<noteq> Some ''RDM'') \<and>
   fst (cli ok_world None (Build False False True True)
          (start_state (Some flavour_only_file))) = Inr () \<and>
   calls (snd (cli ok_world None (Build False False True True)
                 (start_state (Some flavour_only_file)))) =
     [Subprocess_call [''pipenv'', ''lock''] PNone,
      Subprocess_call [''/bin/bash'', ''scripts/bootstrap'', ''--dev''] PNone,
      Create_containers True PNone]"
proof -
  have a: "fs (start_state (Some flavour_only_file)) = Some flavour_only_file"
    by (simp add: start_state_def)
  have b: "config_get flavour_only_file ''cli'' ''flavour'' = Some ''RDM''"
    and c: "config_get flavour_only_file ''cli'' ''cwd'' = None"
    by (simp_all add: config_get_def flavour_only_file_def)
  have d: "\<not> (truthy None \<and> None \<noteq> Some ''RDM'')"
    by simp
  have e: "calls (start_state (Some flavour_only_file)) = []"
    by (simp add: start_state_def)
  show ?thesis
    using a b c d e
      missing_cwd_is_not_fatal [OF a b c d, of ok_world False False True True]
    by (simp add: build_steps_def ok_world_def)
qed

end
